theory Spec2Isabelle
  imports Main "HOL-Library.Word" "HOL-Library.Sublist"
begin

section \<open>Basic types of the network library (lib/network/net.go)\<close>

type_synonym byte = "8 word"

text \<open>A \<open>uuid.UUID\<close> is an array of 16 bytes.\<close>

type_synonym UUID = "128 word"

text \<open>
  \<open>abstract.Point\<close> belongs to the external crypto library; the network code only
  stores it and asks for its \<open>String()\<close>, so it is kept as its binary encoding.
\<close>

type_synonym Point = "byte list"

text \<open>
  Go's \<open>int\<close> is, on a 64-bit platform, a 64-bit two's complement integer: the
  result of an addition or a multiplication is reduced into the range
  \<open>-2^63 .. 2^63 - 1\<close>.
\<close>

definition int64 :: "int \<Rightarrow> int" where
  "int64 x = (x + 2 ^ 63) mod 2 ^ 64 - 2 ^ 63"

text \<open>
  A call returns a value, or panics (index out of range, failed type assertion, call
  through a nil interface), or never returns because it waits for input that does
  not come.
\<close>

datatype 'a outcome = Ret 'a | Panic | Blocked

subsection \<open>Identity and its address iterator\<close>

record Identity =
  Public :: Point
  Id' :: UUID
  Addresses :: "string list"
  iter :: int

text \<open>
  \<open>NewIdentity\<close>: the id is a version-5 UUID of a URL built from the public key.
  \<open>uuid.NewV5\<close> and \<open>Point.String\<close> are external and taken as parameters; the
  cursor \<open>iter\<close> is not mentioned in the struct literal and so starts at 0.
\<close>

definition NewIdentity ::
  "(string \<Rightarrow> UUID) \<Rightarrow> (Point \<Rightarrow> string) \<Rightarrow> Point \<Rightarrow> string list \<Rightarrow> Identity" where
  "NewIdentity NewV5 String public addresses =
     (let url = ''https://dedis.epfl.ch/id/'' @ String public
      in \<lparr>Public = public, Id' = NewV5 url, Addresses = addresses, iter = 0\<rparr>)"

definition First :: "Identity \<Rightarrow> string" where
  "First idt = (if length (Addresses idt) > 0 then Addresses idt ! 0 else [])"

text \<open>
  \<open>Next\<close> returns the address under the cursor and advances the cursor. The slice
  access \<open>id.Addresses[id.iter]\<close> panics in Go when the index is negative or not
  below the length; that is the last branch.
\<close>

definition Next :: "Identity \<Rightarrow> (string \<times> Identity) outcome" where
  "Next idt =
     (if int (length (Addresses idt)) < int64 (iter idt + 1) then Ret ([], idt)
      else if 0 \<le> iter idt \<and> iter idt < int (length (Addresses idt))
      then Ret (Addresses idt ! nat (iter idt), idt\<lparr>iter := int64 (iter idt + 1)\<rparr>)
      else Panic)"

text \<open>A caller that calls \<open>Next\<close> \<open>n\<close> times in a row and collects what it returns.\<close>

fun Next_calls :: "nat \<Rightarrow> Identity \<Rightarrow> (string list \<times> Identity) outcome" where
  "Next_calls 0 idt = Ret ([], idt)"
| "Next_calls (Suc n) idt =
     (case Next idt of
        Ret (a, idt') \<Rightarrow>
          (case Next_calls n idt' of
             Ret (as, idt'') \<Rightarrow> Ret (a # as, idt'')
           | Panic \<Rightarrow> Panic
           | Blocked \<Rightarrow> Blocked)
      | Panic \<Rightarrow> Panic
      | Blocked \<Rightarrow> Blocked)"

subsection \<open>Errors\<close>

text \<open>
  A Go \<open>error\<close> is one of the package's sentinel values, an error built by
  \<open>fmt.Errorf\<close>, or an error of the standard library. Of the latter the code looks
  only at the message and, when the error implements \<open>net.Error\<close>, at
  \<open>Temporary()\<close> and \<open>Timeout()\<close>, in this order in the pair.
\<close>

datatype error =
    ErrClosed | ErrEOF | ErrCanceled | ErrTemp | ErrTimeout | ErrUnknown
  | Errorf string
  | OSError string "(bool \<times> bool) option"

fun Error :: "error \<Rightarrow> string" where
  "Error ErrClosed = ''Connection Closed''"
| "Error ErrEOF = ''EOF''"
| "Error ErrCanceled = ''Operation Canceled''"
| "Error ErrTemp = ''Temporary Error''"
| "Error ErrTimeout = ''Timeout Error''"
| "Error ErrUnknown = ''Unknown Error''"
| "Error (Errorf m) = m"
| "Error (OSError m _) = m"

fun net_Error :: "error \<Rightarrow> (bool \<times> bool) option" where
  "net_Error (OSError _ ne) = ne"
| "net_Error _ = None"

definition io_EOF :: error where
  "io_EOF = OSError ''EOF'' None"

definition use_of_closed :: error where
  "use_of_closed = OSError ''use of closed network connection'' (Some (False, False))"

text \<open>\<open>strings.Contains s substr\<close>.\<close>

fun Contains :: "string \<Rightarrow> string \<Rightarrow> bool" where
  "Contains [] substr = (substr = [])"
| "Contains (c # s) substr = (prefix substr (c # s) \<or> Contains s substr)"

definition handleError :: "error \<Rightarrow> error" where
  "handleError err =
     (if Contains (Error err) ''use of closed'' then ErrClosed
      else if Contains (Error err) ''canceled'' then ErrCanceled
      else if err = io_EOF \<or> Contains (Error err) ''EOF'' then ErrEOF
      else (case net_Error err of
              None \<Rightarrow> ErrUnknown
            | Some (temporary, timeout) \<Rightarrow>
                if temporary then ErrTemp
                else if timeout then ErrTimeout
                else ErrUnknown))"

subsection \<open>The operating system's side: connections, dialling, sleeping\<close>

text \<open>
  A \<open>net.Conn\<close> is driven by the peer and the operating system. It is modelled by
  what its calls are going to return: \<open>reads\<close> holds the results of the coming
  \<open>Read\<close> calls (bytes delivered and error), and a \<open>Read\<close> with nothing pending never
  returns; \<open>writes\<close> holds the results of the coming \<open>Write\<close> calls, every later
  \<open>Write\<close> succeeds; \<open>close_result\<close> is what the first \<open>Close\<close> returns. Every call
  on a closed connection fails with "use of closed network connection".
\<close>

record netConn =
  reads :: "(byte list \<times> error option) list"
  writes :: "error option list"
  close_result :: "error option"
  nc_closed :: bool
  sent :: "byte list list"

definition net_Read :: "netConn \<Rightarrow> ((byte list \<times> error option) \<times> netConn) option" where
  "net_Read nc =
     (if nc_closed nc then Some (([], Some use_of_closed), nc)
      else (case reads nc of
              [] \<Rightarrow> None
            | r # rs \<Rightarrow> Some (r, nc\<lparr>reads := rs\<rparr>)))"

definition net_Write :: "netConn \<Rightarrow> byte list \<Rightarrow> error option \<times> netConn" where
  "net_Write nc b =
     (if nc_closed nc then (Some use_of_closed, nc)
      else (case writes nc of
              [] \<Rightarrow> (None, nc\<lparr>sent := sent nc @ [b]\<rparr>)
            | None # rs \<Rightarrow> (None, nc\<lparr>writes := rs, sent := sent nc @ [b]\<rparr>)
            | Some e # rs \<Rightarrow> (Some e, nc\<lparr>writes := rs\<rparr>)))"

definition net_Close :: "netConn \<Rightarrow> error option \<times> netConn" where
  "net_Close nc =
     (if nc_closed nc then (Some use_of_closed, nc)
      else (close_result nc, nc\<lparr>nc_closed := True\<rparr>))"

text \<open>
  The calls a host makes to \<open>net.Dial\<close> and \<open>time.Sleep\<close> are recorded in order.
  What the \<open>k\<close>-th \<open>net.Dial\<close> of a run returns for an address is given by
  \<open>dial\<close>: an error (and a nil connection) or a connection (and a nil error).
  Durations are in nanoseconds, as in Go.
\<close>

datatype event = Dial string | Sleep int

record net =
  dial :: "nat \<Rightarrow> string \<Rightarrow> error + netConn"
  dialled :: nat
  calls :: "event list"

definition net_Dial :: "string \<Rightarrow> net \<Rightarrow> (error + netConn) \<times> net" where
  "net_Dial name w =
     (dial w (dialled w) name,
      w\<lparr>dialled := Suc (dialled w), calls := calls w @ [Dial name]\<rparr>)"

definition time_Sleep :: "int \<Rightarrow> net \<Rightarrow> net" where
  "time_Sleep d w = w\<lparr>calls := calls w @ [Sleep d]\<rparr>"

definition time_Second :: int where
  "time_Second = 1000000000"

subsection \<open>TcpConn and the dial loop\<close>

definition maxRetry :: nat where
  "maxRetry = 10"

definition waitRetry :: int where
  "waitRetry = 1 * time_Second"

record TcpConn =
  Endpoint :: string
  Conn :: netConn
  closed :: bool

text \<open>
  The loop of \<open>openTcpConn\<close>, from counter \<open>i\<close> on, with the current values of the
  variables \<open>conn\<close> and \<open>err\<close>. After a failed dial the \<open>if\<close> branch sleeps and
  the statement after the \<open>if\<close>/\<open>else\<close> sleeps again; a successful dial leaves
  the loop through \<open>break\<close>.
\<close>

function openTcpConn_loop ::
  "string \<Rightarrow> nat \<Rightarrow> netConn option \<times> error option \<Rightarrow> net
     \<Rightarrow> (netConn option \<times> error option) \<times> net" where
  "openTcpConn_loop name i ce w =
     (if i < maxRetry then
        (case net_Dial name w of
           (Inl err, w1) \<Rightarrow>
             openTcpConn_loop name (i + 1) (None, Some err)
               (time_Sleep waitRetry (time_Sleep waitRetry w1))
         | (Inr conn, w1) \<Rightarrow> ((Some conn, None), w1))
      else (ce, w))"
  by pat_completeness auto
termination
  by (relation "measure (\<lambda>(name, i, ce, w). maxRetry - i)") auto

declare openTcpConn_loop.simps [simp del]

definition openTcpConn :: "string \<Rightarrow> net \<Rightarrow> (TcpConn option \<times> error option) \<times> net" where
  "openTcpConn name w =
     (case openTcpConn_loop name 0 (None, None) w of
        ((None, err), w') \<Rightarrow>
          ((None, Some (Errorf (''Could not connect to '' @ name @ ''.''))), w')
      | ((Some conn, err), w') \<Rightarrow>
          ((Some \<lparr>Endpoint = name, Conn = conn, closed = False\<rparr>, err), w'))"

definition Remote :: "TcpConn \<Rightarrow> string" where
  "Remote c = Endpoint c"

text \<open>\<open>TcpConn.Close\<close>: the flag is set whatever the underlying \<open>Close\<close> returns.\<close>

definition TcpConn_Close :: "TcpConn \<Rightarrow> error option \<times> TcpConn" where
  "TcpConn_Close c =
     (if closed c = True then (None, c)
      else (case net_Close (Conn c) of
              (err, nc) \<Rightarrow>
                (let c' = c\<lparr>Conn := nc, closed := True\<rparr>
                 in (case err of
                       Some e \<Rightarrow> (Some (handleError e), c')
                     | None \<Rightarrow> (None, c')))))"

subsection \<open>Messages and the codec\<close>

text \<open>
  The envelope type \<open>ApplicationMessage\<close>, its constructor and its binary encoding are
  defined in a file of the package that is not part of the sources at hand. The
  functions below use them through their signatures only, so that they are taken as
  parameters, collected in \<open>codec\<close>. \<open>UnmarshalBinary\<close> fills in the receiver and
  returns an error, or panics; its three results carry the message type it has set.
\<close>

type_synonym Type = UUID

datatype ProtocolMessage = IdentityMsg Identity | OtherMsg "byte list" | NilMsg

record ApplicationMessage =
  From :: string
  AmIdentity :: Identity
  MsgType :: Type
  Msg :: ProtocolMessage

datatype unmarshal =
    Unmarshalled Type ProtocolMessage
  | UnmarshalError Type error
  | UnmarshalPanic

record codec =
  IdentityType :: Type
  TypeString :: "Type \<Rightarrow> string"
  EmptyApplicationMessage :: ApplicationMessage
  newApplicationMessage :: "ProtocolMessage \<Rightarrow> error + ApplicationMessage"
  MarshalBinary :: "ApplicationMessage \<Rightarrow> error + byte list"
  UnmarshalBinary :: "byte list \<Rightarrow> unmarshal"

text \<open>The zero values of \<open>Identity\<close> and \<open>ApplicationMessage\<close>.\<close>

definition zeroIdentity :: Identity where
  "zeroIdentity = \<lparr>Public = [], Id' = 0, Addresses = [], iter = 0\<rparr>"

definition zeroApplicationMessage :: ApplicationMessage where
  "zeroApplicationMessage =
     \<lparr>From = [], AmIdentity = zeroIdentity, MsgType = 0, Msg = NilMsg\<rparr>"

subsection \<open>Receive and Send\<close>

definition bufferSize :: nat where
  "bufferSize = 4096"

text \<open>
  The read loop of \<open>Receive\<close>: every chunk read is appended to the buffer, also the
  one delivered together with an error; a read shorter than the buffer ends the
  message. The result is \<open>None\<close> when a \<open>Read\<close> never returns.
\<close>

function Receive_loop :: "netConn \<Rightarrow> byte list \<Rightarrow> ((error + byte list) \<times> netConn) option" where
  "Receive_loop nc buffer =
     (case net_Read nc of
        None \<Rightarrow> None
      | Some ((b, Some err), nc') \<Rightarrow> Some (Inl err, nc')
      | Some ((b, None), nc') \<Rightarrow>
          if length b < bufferSize then Some (Inr (buffer @ b), nc')
          else Receive_loop nc' (buffer @ b))"
  by pat_completeness auto
termination
  by (relation "measure (\<lambda>(nc, buffer). length (reads nc))")
     (auto simp: net_Read_def split: if_splits list.splits)

text \<open>
  \<open>TcpConn.Receive\<close>. A call returns the message and the error, and leaves the
  connection in a new state; or it never returns. A panic of \<open>UnmarshalBinary\<close> is
  recovered by the deferred function, which prints it; the function then returns
  the values its results have at that moment. The results are unnamed and no
  \<open>return\<close> statement has run, so that these are the zero values: an empty message
  and a nil error.
\<close>

definition Receive ::
  "codec \<Rightarrow> TcpConn \<Rightarrow> ((ApplicationMessage \<times> error option) \<times> TcpConn) outcome" where
  "Receive cd c =
     (case Receive_loop (Conn c) [] of
        None \<Rightarrow> Blocked
      | Some (Inl err, nc) \<Rightarrow>
          Ret ((EmptyApplicationMessage cd, Some (handleError err)), c\<lparr>Conn := nc\<rparr>)
      | Some (Inr buffer, nc) \<Rightarrow>
          (case UnmarshalBinary cd buffer of
             UnmarshalPanic \<Rightarrow> Ret ((zeroApplicationMessage, None), c\<lparr>Conn := nc\<rparr>)
           | UnmarshalError ty err \<Rightarrow>
               Ret ((EmptyApplicationMessage cd,
                     Some (Errorf (''Error unmarshaling message type '' @ TypeString cd ty
                                     @ '': '' @ Error err))),
                    c\<lparr>Conn := nc\<rparr>)
           | Unmarshalled ty m \<Rightarrow>
               Ret ((\<lparr>From = Remote c, AmIdentity = zeroIdentity, MsgType = ty, Msg = m\<rparr>,
                     None),
                    c\<lparr>Conn := nc\<rparr>)))"

definition Send :: "codec \<Rightarrow> TcpConn \<Rightarrow> ProtocolMessage \<Rightarrow> error option \<times> TcpConn" where
  "Send cd c obj =
     (case newApplicationMessage cd obj of
        Inl err \<Rightarrow> (Some (Errorf (''Error converting packet: '' @ Error err @ [CHR 0x0A])), c)
      | Inr am \<Rightarrow>
          (case MarshalBinary cd am of
             Inl err \<Rightarrow> (Some (Errorf (''Error marshaling  message: '' @ Error err)), c)
           | Inr b \<Rightarrow>
               (case net_Write (Conn c) b of
                  (Some err, nc) \<Rightarrow> (Some (handleError err), c\<lparr>Conn := nc\<rparr>)
                | (None, nc) \<Rightarrow> (None, c\<lparr>Conn := nc\<rparr>))))"

subsection \<open>TcpHost\<close>

text \<open>
  A \<open>net.Listener\<close>, as far as \<open>Close\<close> is concerned, and a channel, of which only
  closing matters: closing a closed channel panics.
\<close>

record netListener =
  l_close_result :: "error option"
  l_closed :: bool

definition Listener_Close :: "netListener \<Rightarrow> error option \<times> netListener" where
  "Listener_Close ln =
     (if l_closed ln then (Some use_of_closed, ln)
      else (l_close_result ln, ln\<lparr>l_closed := True\<rparr>))"

datatype chan = ChanOpen | ChanClosed

text \<open>
  The map \<open>peers\<close> is kept as the list of its entries in the order in which the
  \<open>range\<close> loop of \<open>Close\<close> visits them. Go leaves this order open; what is proved
  below for every list holds for every order.
\<close>

record TcpHost =
  peers :: "(string \<times> TcpConn) list"
  listener :: "netListener option"
  quit :: chan
  host_closed :: bool

text \<open>The \<open>range\<close> loop of \<open>TcpHost.Close\<close>: it returns at the first error.\<close>

fun Close_peers :: "(string \<times> TcpConn) list \<Rightarrow> error option \<times> (string \<times> TcpConn) list" where
  "Close_peers [] = (None, [])"
| "Close_peers ((k, c) # ps) =
     (case TcpConn_Close c of
        (Some err, c') \<Rightarrow> (Some (handleError err), (k, c') # ps)
      | (None, c') \<Rightarrow>
          (case Close_peers ps of
             (r, ps') \<Rightarrow> (r, (k, c') # ps')))"

definition TcpHost_Close :: "TcpHost \<Rightarrow> (error option \<times> TcpHost) outcome" where
  "TcpHost_Close t =
     (if host_closed t = True then Ret (None, t)
      else
        (let t1 = t\<lparr>host_closed := True\<rparr>
         in (case Close_peers (peers t1) of
               (Some err, ps) \<Rightarrow> Ret (Some err, t1\<lparr>peers := ps\<rparr>)
             | (None, ps) \<Rightarrow>
                 (case quit t1 of
                    ChanClosed \<Rightarrow> Panic
                  | ChanOpen \<Rightarrow>
                      (let t2 = t1\<lparr>peers := ps, quit := ChanClosed\<rparr>
                       in (case listener t2 of
                             None \<Rightarrow> Ret (None, t2)
                           | Some ln \<Rightarrow>
                               (case Listener_Close ln of
                                  (r, ln') \<Rightarrow> Ret (r, t2\<lparr>listener := Some ln'\<rparr>))))))))"

subsection \<open>SecureTcpHost and identity negotiation\<close>

text \<open>
  Of \<open>SecureTcpHost\<close> the embedded \<open>TcpHost\<close> and the host's own identity are kept;
  of \<open>SecureTcpConn\<close> the embedded \<open>TcpConn\<close> and the negotiated identity. The
  connection's pointer to its host is replaced by passing the host.
\<close>

record SecureTcpHost =
  STcpHost :: TcpHost
  SIdentity :: Identity
  workingAddress :: string

record SecureTcpConn =
  STcpConn :: TcpConn
  identity :: Identity

text \<open>
  \<open>negotiateListen\<close>. The type assertion \<open>nm.Msg.(Identity)\<close> panics when the message
  does not hold an \<open>Identity\<close>.
\<close>

definition negotiateListen ::
  "codec \<Rightarrow> SecureTcpHost \<Rightarrow> SecureTcpConn \<Rightarrow> (error option \<times> SecureTcpConn) outcome" where
  "negotiateListen cd st sc =
     (case Send cd (STcpConn sc) (IdentityMsg (SIdentity st)) of
        (Some err, c1) \<Rightarrow>
          Ret (Some (Errorf (''Error while sending indentity during negotiation:'' @ Error err)),
               sc\<lparr>STcpConn := c1\<rparr>)
      | (None, c1) \<Rightarrow>
          (case Receive cd c1 of
             Ret ((nm, Some err), c2) \<Rightarrow>
               Ret (Some (Errorf (''Error while receiving identity during negotiation ''
                                    @ Error err)),
                    sc\<lparr>STcpConn := c2\<rparr>)
           | Ret ((nm, None), c2) \<Rightarrow>
               if MsgType nm \<noteq> IdentityType cd
               then Ret (Some (Errorf (''Received wrong type during negotiation ''
                                         @ TypeString cd (MsgType nm))),
                         sc\<lparr>STcpConn := c2\<rparr>)
               else (case Msg nm of
                       IdentityMsg rid \<Rightarrow> Ret (None, sc\<lparr>STcpConn := c2, identity := rid\<rparr>)
                     | OtherMsg _ \<Rightarrow> Panic
                     | NilMsg \<Rightarrow> Panic)
           | Panic \<Rightarrow> Panic
           | Blocked \<Rightarrow> Blocked))"

definition negotiateOpen ::
  "codec \<Rightarrow> SecureTcpHost \<Rightarrow> SecureTcpConn \<Rightarrow> Identity
     \<Rightarrow> (error option \<times> SecureTcpConn) outcome" where
  "negotiateOpen cd st sc idt =
     (case negotiateListen cd st sc of
        Ret (Some err, sc') \<Rightarrow> Ret (Some err, sc')
      | Ret (None, sc') \<Rightarrow>
          if Id' (identity sc') \<noteq> Id' idt
          then Ret (Some (Errorf ''Identity received during negotiation is wrong. WARNING''), sc')
          else Ret (None, sc')
      | Panic \<Rightarrow> Panic
      | Blocked \<Rightarrow> Blocked)"

text \<open>
  The closure \<open>receiver\<close> of \<open>SecureTcpHost.Listen\<close>, which the accept loop calls
  with every accepted connection. Its result tells whether the handler \<open>fn\<close> was
  started, and with which connection, and gives the new state of the connection.
\<close>

definition Listen_receiver ::
  "codec \<Rightarrow> SecureTcpHost \<Rightarrow> TcpConn \<Rightarrow> (SecureTcpConn option \<times> TcpConn) outcome" where
  "Listen_receiver cd st c =
     (case negotiateListen cd st \<lparr>STcpConn = c, identity = zeroIdentity\<rparr> of
        Ret (Some err, stc) \<Rightarrow>
          (case TcpConn_Close (STcpConn stc) of
             (r, c') \<Rightarrow> Ret (None, c'))
      | Ret (None, stc) \<Rightarrow> Ret (Some stc, STcpConn stc)
      | Panic \<Rightarrow> Panic
      | Blocked \<Rightarrow> Blocked)"

text \<open>
  The loop of \<open>SecureTcpHost.Open\<close> over the addresses of the identity. The result
  is \<open>None\<close> when \<open>success\<close> is still false after the loop, and otherwise the
  pointer stored in \<open>secure.TcpConn\<close>.
\<close>

fun Open_loop :: "string list \<Rightarrow> net \<Rightarrow> TcpConn option option \<times> net" where
  "Open_loop [] w = (None, w)"
| "Open_loop (addr # addrs) w =
     (case openTcpConn addr w of
        ((c, Some err), w') \<Rightarrow> Open_loop addrs w'
      | ((c, None), w') \<Rightarrow> (Some c, w'))"

text \<open>
  \<open>SecureTcpHost.Open\<close> returns \<open>&secure\<close> together with the result of
  \<open>negotiateOpen\<close>: the connection is returned also when the negotiation failed.
  Negotiating over a nil \<open>TcpConn\<close> would panic.
\<close>

definition Open ::
  "codec \<Rightarrow> SecureTcpHost \<Rightarrow> Identity \<Rightarrow> net
     \<Rightarrow> (SecureTcpConn option \<times> error option) outcome \<times> net" where
  "Open cd st idt w =
     (case Open_loop (Addresses idt) w of
        (None, w') \<Rightarrow>
          (Ret (None, Some (Errorf ''Could not connect to any address tied to this identity'')),
           w')
      | (Some None, w') \<Rightarrow> (Panic, w')
      | (Some (Some c), w') \<Rightarrow>
          (case negotiateOpen cd st \<lparr>STcpConn = c, identity = idt\<rparr> idt of
             Ret (err, sc) \<Rightarrow> (Ret (Some sc, err), w')
           | Panic \<Rightarrow> (Panic, w')
           | Blocked \<Rightarrow> (Blocked, w')))"

section \<open>The simulation driver (simul/cothority/cothority.go)\<close>

text \<open>
  Modelled from the spec: the types \<open>Tree\<close> and \<open>Roster\<close> and the methods \<open>Size\<close> and
  \<open>UsesList\<close> of package \<open>sda\<close>, which are not among the sources. A tree is a rooted
  hierarchy whose nodes carry the id of an identity of the roster; several nodes may
  carry the same id. Its size is the number of its nodes. The tree uses the list
  when there is exactly one tree node for each identity of the roster.
\<close>

datatype TreeNode = TreeNode UUID "TreeNode list"

type_synonym Roster = "UUID list"

fun nodes :: "TreeNode \<Rightarrow> UUID list" where
  "nodes (TreeNode i cs) = i # concat (map nodes cs)"

definition Size :: "TreeNode \<Rightarrow> int" where
  "Size t = int (length (nodes t))"

definition UsesList :: "TreeNode \<Rightarrow> Roster \<Rightarrow> bool" where
  "UsesList t roster = list_all (\<lambda>i. count_list (nodes t) i = 1) roster"

text \<open>
  Modelled from the spec: the method \<open>GenerateBinaryTree\<close> of \<open>Roster\<close> (package
  \<open>sda\<close>, not among the sources). The roster is an ordered set of identities,
  unique by id, and its order determines the tree; the tree rebuilt from the roster
  has one node for each identity of the roster. The first identity becomes the root,
  and the others are split into two halves, of which each one that is not empty
  makes a subtree in the same way. The roster of a simulation is not empty, since
  the root host is in it; for an empty roster the zero id stands in as the root.
\<close>

function binary_tree :: "UUID \<Rightarrow> UUID list \<Rightarrow> TreeNode" where
  "binary_tree x xs =
     TreeNode x
       ((case take ((length xs + 1) div 2) xs of
           [] \<Rightarrow> []
         | y # ys \<Rightarrow> [binary_tree y ys])
        @ (case drop ((length xs + 1) div 2) xs of
             [] \<Rightarrow> []
           | z # zs \<Rightarrow> [binary_tree z zs]))"
  by pat_completeness auto
termination
proof (relation "measure (\<lambda>(x, xs). length xs)")
  show "wf (measure (\<lambda>(x, xs). length xs))"
    by simp
next
  fix x y :: UUID and xs ys :: "UUID list"
  assume "take ((length xs + 1) div 2) xs = y # ys"
  then have "length (take ((length xs + 1) div 2) xs) = Suc (length ys)"
    by simp
  then have "length ys < length xs"
    by simp
  then show "((y, ys), (x, xs)) \<in> measure (\<lambda>(x, xs). length xs)"
    by simp
next
  fix x z :: UUID and xs zs :: "UUID list"
  assume "drop ((length xs + 1) div 2) xs = z # zs"
  then have "length (drop ((length xs + 1) div 2) xs) = Suc (length zs)"
    by simp
  then have "length zs < length xs"
    by simp
  then show "((z, zs), (x, xs)) \<in> measure (\<lambda>(x, xs). length xs)"
    by simp
qed

declare binary_tree.simps [simp del]

definition GenerateBinaryTree :: "Roster \<Rightarrow> TreeNode" where
  "GenerateBinaryTree roster =
     (case roster of
        [] \<Rightarrow> TreeNode 0 []
      | x # xs \<Rightarrow> binary_tree x xs)"

text \<open>
  What \<open>main\<close> reads of the root's \<open>SimulationConfig\<close>: the tree, the roster and the
  value of \<open>GetSingleHost()\<close>.
\<close>

record SimulationConfig =
  Tree :: TreeNode
  Roster :: Roster
  GetSingleHost :: bool

text \<open>
  How a part of \<open>main\<close> ends: control goes on to the next statement; \<open>log.Fatal\<close>
  ends the process; a panic ends it; or \<open>main\<close> waits on a channel on which nothing
  arrives.
\<close>

datatype exit = Proceeds | Fatal error | Crash | Waits

text \<open>
  The loop that counts the children. The overlay and the Count protocol belong to
  other packages; each element of the script is what one round brings: an error of
  \<open>CreateProtocolSDA\<close>, or the count that arrives on \<open>proto.Count\<close>. With the script
  used up, the round that has been started brings nothing. The first component of
  the result lists the timeouts given to \<open>SetTimeout\<close>, one for each round started.
  \<open>timeout\<close> is an \<open>int\<close>, so that \<open>timeout *= 2\<close> wraps around.
\<close>

fun count_loop :: "int \<Rightarrow> int \<Rightarrow> (error + int) list \<Rightarrow> int list \<times> exit" where
  "count_loop sz timeout [] = ([timeout], Waits)"
| "count_loop sz timeout (Inl err # rs) = ([], Fatal err)"
| "count_loop sz timeout (Inr count # rs) =
     (if count = sz then ([timeout], Proceeds)
      else (case count_loop sz (int64 (timeout * 2)) rs of
              (ts, e) \<Rightarrow> (timeout # ts, e)))"

definition count_children :: "SimulationConfig \<Rightarrow> (error + int) list \<Rightarrow> int list \<times> exit" where
  "count_children rootSC rs = count_loop (Size (Tree rootSC)) 1000 rs"

text \<open>
  The end of \<open>main\<close> on the root: the choice of the tree for CloseAll. What the
  driver does is recorded as a list of actions. \<open>CreateProtocolSDA\<close> belongs to
  the overlay and is a parameter; it returns a protocol instance (here only nil or
  not) and an error. \<open>pi.Start()\<close> is called before the error is looked at, and
  panics on a nil instance.
\<close>

datatype action =
    LogError
  | RegisterTree TreeNode
  | CreateProtocolSDA string TreeNode
  | Start

definition close_all ::
  "(string \<Rightarrow> TreeNode \<Rightarrow> bool \<times> error option) \<Rightarrow> SimulationConfig
     \<Rightarrow> action list \<times> exit" where
  "close_all create rootSC =
     (let warn = (if \<not> UsesList (Tree rootSC) (Roster rootSC) then [LogError] else []);
          closeTree = (if GetSingleHost rootSC then GenerateBinaryTree (Roster rootSC)
                       else Tree rootSC);
          reg = (if GetSingleHost rootSC then [RegisterTree closeTree] else []);
          acts = warn @ reg @ [CreateProtocolSDA ''CloseAll'' closeTree]
      in (case create ''CloseAll'' closeTree of
            (False, err) \<Rightarrow> (acts, Crash)
          | (True, Some e) \<Rightarrow> (acts @ [Start], Fatal e)
          | (True, None) \<Rightarrow> (acts @ [Start], Proceeds)))"

section \<open>Example values\<close>

text \<open>
  Concrete inputs at which the functions above are evaluated below: a dial error, an
  identity with a given id, a connection that has the given reads pending, and a
  small codec. The wire format of the codec is a type byte followed by the payload:
  1 is an \<open>Identity\<close> (one byte of id), 2 is another registered type, no other type
  is registered, and decoding a message of type 255 panics.
\<close>

definition ex_refused :: error where
  "ex_refused = OSError ''dial tcp: connection refused'' (Some (False, False))"

definition ex_identity :: "UUID \<Rightarrow> string list \<Rightarrow> Identity" where
  "ex_identity i addrs = \<lparr>Public = [], Id' = i, Addresses = addrs, iter = 0\<rparr>"

definition ex_conn :: "(byte list \<times> error option) list \<Rightarrow> netConn" where
  "ex_conn rs = \<lparr>reads = rs, writes = [], close_result = None, nc_closed = False, sent = []\<rparr>"

definition ex_codec :: codec where
  "ex_codec =
     \<lparr>IdentityType = 1,
      TypeString = (\<lambda>ty. if ty = 1 then ''Identity'' else ''Other''),
      EmptyApplicationMessage = zeroApplicationMessage,
      newApplicationMessage =
        (\<lambda>m. case m of
               IdentityMsg i \<Rightarrow>
                 Inr \<lparr>From = [], AmIdentity = zeroIdentity, MsgType = 1, Msg = m\<rparr>
             | OtherMsg b \<Rightarrow>
                 Inr \<lparr>From = [], AmIdentity = zeroIdentity, MsgType = 2, Msg = m\<rparr>
             | NilMsg \<Rightarrow> Inl (Errorf ''nil message'')),
      MarshalBinary =
        (\<lambda>am. case Msg am of
                IdentityMsg i \<Rightarrow> Inr [1, of_nat (unat (Id' i))]
              | OtherMsg b \<Rightarrow> Inr (2 # b)
              | NilMsg \<Rightarrow> Inl (Errorf ''nil message'')),
      UnmarshalBinary =
        (\<lambda>b. case b of
               [] \<Rightarrow> UnmarshalError 0 io_EOF
             | t # rest \<Rightarrow>
                 if t = 1 then
                   (case rest of
                      [i] \<Rightarrow> Unmarshalled 1 (IdentityMsg (ex_identity (of_nat (unat i)) []))
                    | _ \<Rightarrow> UnmarshalError 1 (Errorf ''malformed identity''))
                 else if t = 2 then Unmarshalled 2 (OtherMsg rest)
                 else if t = 255 then UnmarshalPanic
                 else UnmarshalError (of_nat (unat t)) (Errorf ''unregistered type''))\<rparr>"

text \<open>
  Hosts' views of the network, all starting with no call made: with
  \<open>ex_accepting_from n nc\<close> the first \<open>n\<close> dials of the run are refused and every later
  dial is answered with the connection \<open>nc\<close>; with \<open>ex_refusing x nc\<close> the address
  \<open>x\<close> refuses every dial and every other address answers with \<open>nc\<close>.
\<close>

definition ex_accepting_from :: "nat \<Rightarrow> netConn \<Rightarrow> nat \<Rightarrow> string \<Rightarrow> error + netConn" where
  "ex_accepting_from n nc k a = (if k < n then Inl ex_refused else Inr nc)"

definition ex_refusing :: "string \<Rightarrow> netConn \<Rightarrow> nat \<Rightarrow> string \<Rightarrow> error + netConn" where
  "ex_refusing x nc k a = (if a = x then Inl ex_refused else Inr nc)"

definition ex_net :: "(nat \<Rightarrow> string \<Rightarrow> error + netConn) \<Rightarrow> net" where
  "ex_net d = \<lparr>dial = d, dialled = 0, calls = []\<rparr>"

text \<open>A secure host with the identity 5 and no connection yet.\<close>

definition ex_host :: SecureTcpHost where
  "ex_host =
     \<lparr>STcpHost = \<lparr>peers = [], listener = None, quit = ChanOpen, host_closed = False\<rparr>,
      SIdentity = ex_identity 5 [''10.0.0.9:2000''], workingAddress = ''10.0.0.9:2000''\<rparr>"

text \<open>
  Stand-ins for the external functions: a UUID generator, a rendering of points, and
  a \<open>CreateProtocolSDA\<close> that succeeds.
\<close>

definition ex_NewV5 :: "string \<Rightarrow> UUID" where
  "ex_NewV5 url = 7"

definition ex_String :: "Point \<Rightarrow> string" where
  "ex_String p = []"

definition ex_create :: "string \<Rightarrow> TreeNode \<Rightarrow> bool \<times> error option" where
  "ex_create n t = (True, None)"

text \<open>A configuration whose tree has three nodes, two of them for the identity 1.\<close>

definition ex_rootSC :: SimulationConfig where
  "ex_rootSC =
     \<lparr>Tree = TreeNode 1 [TreeNode 2 [], TreeNode 1 []], Roster = [1, 2], GetSingleHost = False\<rparr>"

section \<open>Properties\<close>

subsection \<open>The address iterator\<close>

lemma int64_id: "- (2 ^ 63) \<le> x \<Longrightarrow> x < 2 ^ 63 \<Longrightarrow> int64 x = x"
  by (simp add: int64_def)

lemma Next_in_range:
  assumes "0 \<le> iter idt" and "iter idt < int (length (Addresses idt))"
    and "length (Addresses idt) < 2 ^ 63 - 1"
  shows "Next idt = Ret (Addresses idt ! nat (iter idt), idt\<lparr>iter := iter idt + 1\<rparr>)"
proof -
  have "int64 (iter idt + 1) = iter idt + 1"
    using assms by (intro int64_id) auto
  then show ?thesis
    using assms by (simp add: Next_def)
qed

lemma Next_exhausted:
  assumes "int (length (Addresses idt)) \<le> iter idt" and "iter idt < 2 ^ 63 - 1"
  shows "Next idt = Ret ([], idt)"
proof -
  have "int64 (iter idt + 1) = iter idt + 1"
    using assms by (intro int64_id) auto
  then show ?thesis
    using assms by (simp add: Next_def)
qed

lemma Next_calls_from_cursor:
  assumes "0 \<le> iter idt" and "iter idt < 2 ^ 63 - 1"
    and "length (Addresses idt) < 2 ^ 63 - 1"
  shows "Next_calls n idt =
           Ret (take n (drop (nat (iter idt)) (Addresses idt))
                  @ replicate (n - (length (Addresses idt) - nat (iter idt))) [],
                idt\<lparr>iter := (if iter idt \<le> int (length (Addresses idt))
                              then min (iter idt + int n) (int (length (Addresses idt)))
                              else iter idt)\<rparr>)"
  using assms
proof (induction n arbitrary: idt)
  case 0
  then show ?case by simp
next
  case (Suc n)
  show ?case
  proof (cases "iter idt < int (length (Addresses idt))")
    case True
    let ?idt' = "idt\<lparr>iter := iter idt + 1\<rparr>"
    have step: "Next idt = Ret (Addresses idt ! nat (iter idt), ?idt')"
      using Suc.prems True by (intro Next_in_range) auto
    have ih: "Next_calls n ?idt' =
           Ret (take n (drop (nat (iter ?idt')) (Addresses ?idt'))
                  @ replicate (n - (length (Addresses ?idt') - nat (iter ?idt'))) [],
                ?idt'\<lparr>iter := (if iter ?idt' \<le> int (length (Addresses ?idt'))
                              then min (iter ?idt' + int n) (int (length (Addresses ?idt')))
                              else iter ?idt')\<rparr>)"
      using Suc.prems True by (intro Suc.IH) auto
    have nat_suc: "nat (iter idt + 1) = Suc (nat (iter idt))"
      using Suc.prems by simp
    have lt: "nat (iter idt) < length (Addresses idt)"
      using Suc.prems True by simp
    have dr: "drop (nat (iter idt)) (Addresses idt) =
                Addresses idt ! nat (iter idt) # drop (Suc (nat (iter idt))) (Addresses idt)"
      using lt by (simp add: Cons_nth_drop_Suc)
    have rep: "Suc n - (length (Addresses idt) - nat (iter idt)) =
               n - (length (Addresses idt) - Suc (nat (iter idt)))"
      using lt by simp
    show ?thesis
      using True Suc.prems(1)
      by (simp add: step ih nat_suc dr rep min_def)
  next
    case False
    have step: "Next idt = Ret ([], idt)"
      using Suc.prems False by (intro Next_exhausted) auto
    have ih: "Next_calls n idt =
           Ret (take n (drop (nat (iter idt)) (Addresses idt))
                  @ replicate (n - (length (Addresses idt) - nat (iter idt))) [],
                idt\<lparr>iter := (if iter idt \<le> int (length (Addresses idt))
                              then min (iter idt + int n) (int (length (Addresses idt)))
                              else iter idt)\<rparr>)"
      using Suc.prems by (intro Suc.IH) auto
    have dr: "drop (nat (iter idt)) (Addresses idt) = []"
      using False Suc.prems by simp
    have z: "length (Addresses idt) - nat (iter idt) = 0"
      using False Suc.prems by simp
    show ?thesis
      using False Suc.prems(1)
      by (simp add: step ih dr z min_def)
  qed
qed

text \<open>
  Claim C10. The address iterator is total and stays inside the list. \<open>First\<close> returns
  the first address of a non-empty list and the empty string for an empty one. From
  any cursor position that \<open>Next\<close> itself can produce (a cursor is never negative;
  cursors and lengths are Go \<open>int\<close>s, and a slice of strings, 16 bytes each, stays
  far below \<open>2^63 - 1\<close> elements), \<open>n\<close> successive calls of \<open>Next\<close> never
  panic: they return the addresses from the cursor on, in list order, followed by
  the empty string for every call made after the list is exhausted, and the cursor
  never moves past the end of the list.
\<close>

theorem Identity_iterator_total:
  assumes "0 \<le> iter idt" and "iter idt < 2 ^ 63 - 1"
    and "length (Addresses idt) < 2 ^ 63 - 1"
  shows "First idt = (case Addresses idt of [] \<Rightarrow> [] | a # _ \<Rightarrow> a)
       \<and> Next_calls n idt =
           Ret (take n (drop (nat (iter idt)) (Addresses idt))
                  @ replicate (n - (length (Addresses idt) - nat (iter idt))) [],
                idt\<lparr>iter := (if iter idt \<le> int (length (Addresses idt))
                              then min (iter idt + int n) (int (length (Addresses idt)))
                              else iter idt)\<rparr>)"
proof
  show "First idt = (case Addresses idt of [] \<Rightarrow> [] | a # _ \<Rightarrow> a)"
    by (cases "Addresses idt") (simp_all add: First_def)
  show "Next_calls n idt =
           Ret (take n (drop (nat (iter idt)) (Addresses idt))
                  @ replicate (n - (length (Addresses idt) - nat (iter idt))) [],
                idt\<lparr>iter := (if iter idt \<le> int (length (Addresses idt))
                              then min (iter idt + int n) (int (length (Addresses idt)))
                              else iter idt)\<rparr>)"
    using assms by (rule Next_calls_from_cursor)
qed

theorem Identity_iterator_total_witness:
  "0 \<le> iter (NewIdentity ex_NewV5 ex_String [] [''10.0.0.1:2000'', ''10.0.0.2:2000''])
   \<and> iter (NewIdentity ex_NewV5 ex_String [] [''10.0.0.1:2000'', ''10.0.0.2:2000'']) < 2 ^ 63 - 1
   \<and> length (Addresses (NewIdentity ex_NewV5 ex_String [] [''10.0.0.1:2000'', ''10.0.0.2:2000'']))
       < 2 ^ 63 - 1
   \<and> First (NewIdentity ex_NewV5 ex_String [] [''10.0.0.1:2000'', ''10.0.0.2:2000''])
       = ''10.0.0.1:2000''
   \<and> Next_calls 4 (NewIdentity ex_NewV5 ex_String [] [''10.0.0.1:2000'', ''10.0.0.2:2000''])
       = Ret ([''10.0.0.1:2000'', ''10.0.0.2:2000'', [], []],
              \<lparr>Public = [], Id' = 7, Addresses = [''10.0.0.1:2000'', ''10.0.0.2:2000''],
               iter = 2\<rparr>)"
proof -
  have r: "replicate 2 ([] :: string) = [[], []]"
    by (simp add: numeral_2_eq_2)
  show ?thesis
    using Identity_iterator_total
      [of "NewIdentity ex_NewV5 ex_String [] [''10.0.0.1:2000'', ''10.0.0.2:2000'']" 4]
    by (simp add: NewIdentity_def ex_NewV5_def ex_String_def r)
qed

subsection \<open>Closing twice\<close>

lemma TcpConn_Close_sets_closed: "TcpConn_Close c = (r, c') \<Longrightarrow> closed c'"
  by (auto simp: TcpConn_Close_def Let_def split: if_splits prod.splits option.splits)

lemma TcpHost_Close_sets_closed: "TcpHost_Close t = Ret (r, t') \<Longrightarrow> host_closed t'"
  by (auto simp: TcpHost_Close_def Let_def
           split: if_splits prod.splits option.splits chan.splits)

text \<open>
  Claim C7. Closing a host or a connection a second time returns nil and changes
  nothing: whatever the first \<open>Close\<close> returned (nil or an error), it leaves the closed
  flag set, and a \<open>Close\<close> of the resulting host or connection returns nil and leaves
  the state as it is. \<open>SecureTcpHost\<close> and \<open>SecureTcpConn\<close> inherit these two methods
  from the embedded \<open>TcpHost\<close> and \<open>TcpConn\<close>.
\<close>

theorem Close_twice_is_noop:
  "(\<forall>r t'. TcpHost_Close t = Ret (r, t') \<longrightarrow>
        host_closed t' \<and> TcpHost_Close t' = Ret (None, t'))
   \<and> (\<forall>r c'. TcpConn_Close c = (r, c') \<longrightarrow>
        closed c' \<and> TcpConn_Close c' = (None, c'))"
proof (intro conjI allI impI)
  fix r t' assume h: "TcpHost_Close t = Ret (r, t')"
  then show "host_closed t'"
    by (rule TcpHost_Close_sets_closed)
  then show "TcpHost_Close t' = Ret (None, t')"
    by (simp add: TcpHost_Close_def)
next
  fix r c' assume h: "TcpConn_Close c = (r, c')"
  then show "closed c'"
    by (rule TcpConn_Close_sets_closed)
  then show "TcpConn_Close c' = (None, c')"
    by (simp add: TcpConn_Close_def)
qed

theorem Close_twice_is_noop_witness:
  "TcpHost_Close
     \<lparr>peers = [(''10.0.0.2:2000'',
                \<lparr>Endpoint = ''10.0.0.2:2000'', Conn = ex_conn [], closed = False\<rparr>)],
      listener = Some \<lparr>l_close_result = None, l_closed = False\<rparr>,
      quit = ChanOpen, host_closed = False\<rparr>
   = Ret (None,
     \<lparr>peers = [(''10.0.0.2:2000'',
                \<lparr>Endpoint = ''10.0.0.2:2000'', Conn = (ex_conn [])\<lparr>nc_closed := True\<rparr>,
                 closed = True\<rparr>)],
      listener = Some \<lparr>l_close_result = None, l_closed = True\<rparr>,
      quit = ChanClosed, host_closed = True\<rparr>)
   \<and> TcpHost_Close
     \<lparr>peers = [(''10.0.0.2:2000'',
                \<lparr>Endpoint = ''10.0.0.2:2000'', Conn = (ex_conn [])\<lparr>nc_closed := True\<rparr>,
                 closed = True\<rparr>)],
      listener = Some \<lparr>l_close_result = None, l_closed = True\<rparr>,
      quit = ChanClosed, host_closed = True\<rparr>
   = Ret (None,
     \<lparr>peers = [(''10.0.0.2:2000'',
                \<lparr>Endpoint = ''10.0.0.2:2000'', Conn = (ex_conn [])\<lparr>nc_closed := True\<rparr>,
                 closed = True\<rparr>)],
      listener = Some \<lparr>l_close_result = None, l_closed = True\<rparr>,
      quit = ChanClosed, host_closed = True\<rparr>)
   \<and> TcpConn_Close
        \<lparr>Endpoint = ''10.0.0.2:2000'',
         Conn = (ex_conn [])\<lparr>close_result := Some (OSError ''close tcp: input/output error'' None)\<rparr>,
         closed = False\<rparr>
   = (Some ErrUnknown,
        \<lparr>Endpoint = ''10.0.0.2:2000'',
         Conn = (ex_conn [])\<lparr>close_result := Some (OSError ''close tcp: input/output error'' None),
                             nc_closed := True\<rparr>,
         closed = True\<rparr>)
   \<and> TcpConn_Close
        \<lparr>Endpoint = ''10.0.0.2:2000'',
         Conn = (ex_conn [])\<lparr>close_result := Some (OSError ''close tcp: input/output error'' None),
                             nc_closed := True\<rparr>,
         closed = True\<rparr>
   = (None,
        \<lparr>Endpoint = ''10.0.0.2:2000'',
         Conn = (ex_conn [])\<lparr>close_result := Some (OSError ''close tcp: input/output error'' None),
                             nc_closed := True\<rparr>,
         closed = True\<rparr>)"
proof -
  let ?c = "\<lparr>Endpoint = ''10.0.0.2:2000'', Conn = ex_conn [], closed = False\<rparr>"
  let ?t = "\<lparr>peers = [(''10.0.0.2:2000'', ?c)],
             listener = Some \<lparr>l_close_result = None, l_closed = False\<rparr>,
             quit = ChanOpen, host_closed = False\<rparr>"
  let ?d = "\<lparr>Endpoint = ''10.0.0.2:2000'',
             Conn = (ex_conn [])\<lparr>close_result := Some (OSError ''close tcp: input/output error'' None)\<rparr>,
             closed = False\<rparr>"
  have first_host: "TcpHost_Close ?t = Ret (None,
     \<lparr>peers = [(''10.0.0.2:2000'',
                \<lparr>Endpoint = ''10.0.0.2:2000'', Conn = (ex_conn [])\<lparr>nc_closed := True\<rparr>,
                 closed = True\<rparr>)],
      listener = Some \<lparr>l_close_result = None, l_closed = True\<rparr>,
      quit = ChanClosed, host_closed = True\<rparr>)"
    by (simp add: TcpHost_Close_def TcpConn_Close_def net_Close_def Listener_Close_def ex_conn_def)
  have first_conn: "TcpConn_Close ?d = (Some ErrUnknown,
        \<lparr>Endpoint = ''10.0.0.2:2000'',
         Conn = (ex_conn [])\<lparr>close_result := Some (OSError ''close tcp: input/output error'' None),
                             nc_closed := True\<rparr>,
         closed = True\<rparr>)"
    by (simp add: TcpConn_Close_def net_Close_def ex_conn_def handleError_def io_EOF_def)
  show ?thesis
    using Close_twice_is_noop [of ?t ?d] first_host first_conn by simp
qed

subsection \<open>The dial loop\<close>











text \<open>
  Claim C4, evaluated. When every dial of an address is refused, \<open>openTcpConn\<close> dials
  exactly 10 times and fails; but after each refused dial it sleeps \<open>waitRetry\<close>
  twice, once in the error branch and once more after the \<open>if\<close>, so that 2 seconds
  and not 1 second lie between consecutive attempts and after the last attempt. When
  the third dial succeeds, no further dial is made and the connection is returned
  with a nil error.
\<close>

theorem openTcpConn_sleeps_twice_per_failure:
  "openTcpConn name (ex_net (ex_refusing name (ex_conn [])))
   = ((None, Some (Errorf (''Could not connect to '' @ name @ ''.''))),
      (ex_net (ex_refusing name (ex_conn [])))
        \<lparr>dialled := 10,
         calls := concat (replicate 10 [Dial name, Sleep 1000000000, Sleep 1000000000])\<rparr>)
   \<and> openTcpConn name (ex_net (ex_accepting_from 2 (ex_conn [])))
   = ((Some \<lparr>Endpoint = name, Conn = ex_conn [], closed = False\<rparr>, None),
      (ex_net (ex_accepting_from 2 (ex_conn [])))
        \<lparr>dialled := 3,
         calls := [Dial name, Sleep 1000000000, Sleep 1000000000,
                   Dial name, Sleep 1000000000, Sleep 1000000000, Dial name]\<rparr>)"
  by (simp add: openTcpConn_def openTcpConn_loop.simps maxRetry_def net_Dial_def
        time_Sleep_def waitRetry_def time_Second_def ex_net_def ex_refusing_def
        ex_accepting_from_def eval_nat_numeral)

subsection \<open>Receiving\<close>

text \<open>
  Claim C5, evaluated. When \<open>UnmarshalBinary\<close> panics on the bytes received (type 255
  of the example codec), \<open>Receive\<close> returns the zero message with a nil error: the
  panic is recovered and printed, and not reported to the caller. A message of an
  unregistered type is reported with a non-nil error. In both cases the connection
  is left open and the next message is received from it.
\<close>

theorem Receive_decode_panic_returns_nil_error:
  "Receive ex_codec
     \<lparr>Endpoint = ''10.0.0.2:2000'', Conn = ex_conn [([255, 0], None), ([2, 8], None)],
      closed = False\<rparr>
   = Ret ((zeroApplicationMessage, None),
          \<lparr>Endpoint = ''10.0.0.2:2000'', Conn = ex_conn [([2, 8], None)], closed = False\<rparr>)
   \<and> Receive ex_codec
     \<lparr>Endpoint = ''10.0.0.2:2000'', Conn = ex_conn [([9, 0], None), ([2, 8], None)],
      closed = False\<rparr>
   = Ret ((zeroApplicationMessage,
           Some (Errorf ''Error unmarshaling message type Other: unregistered type'')),
          \<lparr>Endpoint = ''10.0.0.2:2000'', Conn = ex_conn [([2, 8], None)], closed = False\<rparr>)
   \<and> Receive ex_codec
     \<lparr>Endpoint = ''10.0.0.2:2000'', Conn = ex_conn [([2, 8], None)], closed = False\<rparr>
   = Ret ((\<lparr>From = ''10.0.0.2:2000'', AmIdentity = zeroIdentity, MsgType = 2,
            Msg = OtherMsg [8]\<rparr>, None),
          \<lparr>Endpoint = ''10.0.0.2:2000'', Conn = ex_conn [], closed = False\<rparr>)"
  by (simp add: Receive_def ex_codec_def ex_conn_def net_Read_def bufferSize_def Remote_def)

subsection \<open>Closing a host\<close>

text \<open>
  Claim C6, evaluated. A host tracks two open connections and the \<open>Close\<close> of the
  first one visited returns an error. \<open>TcpHost.Close\<close> then returns at once: the
  closed flag is set, but the second connection stays open, the \<open>quit\<close> channel is
  not closed and the listener is not closed. Since the flag is set, a later \<open>Close\<close>
  does nothing either.
\<close>

theorem TcpHost_Close_stops_at_first_error:
  "TcpHost_Close
     \<lparr>peers = [(''10.0.0.2:2000'',
                \<lparr>Endpoint = ''10.0.0.2:2000'',
                 Conn = (ex_conn [])\<lparr>close_result :=
                           Some (OSError ''close tcp: input/output error'' None)\<rparr>,
                 closed = False\<rparr>),
               (''10.0.0.3:2000'',
                \<lparr>Endpoint = ''10.0.0.3:2000'', Conn = ex_conn [], closed = False\<rparr>)],
      listener = Some \<lparr>l_close_result = None, l_closed = False\<rparr>,
      quit = ChanOpen, host_closed = False\<rparr>
   = Ret (Some ErrUnknown,
     \<lparr>peers = [(''10.0.0.2:2000'',
                \<lparr>Endpoint = ''10.0.0.2:2000'',
                 Conn = (ex_conn [])\<lparr>close_result :=
                           Some (OSError ''close tcp: input/output error'' None),
                         nc_closed := True\<rparr>,
                 closed = True\<rparr>),
               (''10.0.0.3:2000'',
                \<lparr>Endpoint = ''10.0.0.3:2000'', Conn = ex_conn [], closed = False\<rparr>)],
      listener = Some \<lparr>l_close_result = None, l_closed = False\<rparr>,
      quit = ChanOpen, host_closed = True\<rparr>)"
  by (simp add: TcpHost_Close_def TcpConn_Close_def net_Close_def ex_conn_def handleError_def
        io_EOF_def)

subsection \<open>Identity negotiation\<close>

text \<open>
  Claim C2, evaluated. The peer answers the identity message with a message of
  another type. On the open side, \<open>Open\<close> returns the error together with a non-nil
  connection that has not been closed. On the listen side, for the same
  connection, \<open>receiver\<close> closes the connection and does not start the handler.
\<close>

theorem Open_returns_open_connection_on_failed_negotiation:
  "Open ex_codec ex_host (ex_identity 7 [''10.0.0.2:2000''])
     (ex_net (ex_accepting_from 0 (ex_conn [([2, 0], None)])))
   = (Ret (Some \<lparr>STcpConn =
                   \<lparr>Endpoint = ''10.0.0.2:2000'',
                    Conn = \<lparr>reads = [], writes = [], close_result = None, nc_closed = False,
                            sent = [[1, 5]]\<rparr>,
                    closed = False\<rparr>,
                 identity = ex_identity 7 [''10.0.0.2:2000'']\<rparr>,
           Some (Errorf ''Received wrong type during negotiation Other'')),
      (ex_net (ex_accepting_from 0 (ex_conn [([2, 0], None)])))
        \<lparr>dialled := 1, calls := [Dial ''10.0.0.2:2000'']\<rparr>)
   \<and> Listen_receiver ex_codec ex_host
     \<lparr>Endpoint = ''10.0.0.2:2000'', Conn = ex_conn [([2, 0], None)], closed = False\<rparr>
   = Ret (None,
          \<lparr>Endpoint = ''10.0.0.2:2000'',
           Conn = \<lparr>reads = [], writes = [], close_result = None, nc_closed = True,
                   sent = [[1, 5]]\<rparr>,
           closed = True\<rparr>)"
  by (simp add: Open_def openTcpConn_def openTcpConn_loop.simps maxRetry_def net_Dial_def
        negotiateOpen_def negotiateListen_def Send_def Receive_def ex_codec_def ex_conn_def
        ex_identity_def ex_host_def ex_net_def ex_accepting_from_def
        net_Read_def net_Write_def bufferSize_def Remote_def Listen_receiver_def
        TcpConn_Close_def net_Close_def)

text \<open>
  Claim C3. When the transport connection of \<open>Open\<close> succeeds and the identity
  exchange completes (our identity is sent, a message is received without error, and
  it is a well-typed \<open>Identity\<close> message), \<open>Open\<close> returns the connection carrying
  the received identity, and it returns an error if and only if the id of the
  received identity differs from the id of the identity that was dialled.
\<close>

theorem Open_error_iff_identity_mismatch:
  assumes "Open_loop (Addresses idt) w = (Some (Some c), w')"
    and "Send cd c (IdentityMsg (SIdentity st)) = (None, c1)"
    and "Receive cd c1 = Ret ((nm, None), c2)"
    and "MsgType nm = IdentityType cd"
    and "Msg nm = IdentityMsg rid"
  shows "\<exists>err. Open cd st idt w = (Ret (Some \<lparr>STcpConn = c2, identity = rid\<rparr>, err), w')
             \<and> (err \<noteq> None \<longleftrightarrow> Id' rid \<noteq> Id' idt)"
  using assms by (simp add: Open_def negotiateOpen_def negotiateListen_def)

theorem Open_error_iff_identity_mismatch_witness:
  "Open_loop (Addresses (ex_identity 7 [''10.0.0.2:2000'']))
      (ex_net (ex_accepting_from 0 (ex_conn [([1, 7], None)])))
     = (Some (Some \<lparr>Endpoint = ''10.0.0.2:2000'', Conn = ex_conn [([1, 7], None)],
                    closed = False\<rparr>),
        (ex_net (ex_accepting_from 0 (ex_conn [([1, 7], None)])))
          \<lparr>dialled := 1, calls := [Dial ''10.0.0.2:2000'']\<rparr>)
   \<and> Open ex_codec ex_host (ex_identity 7 [''10.0.0.2:2000''])
        (ex_net (ex_accepting_from 0 (ex_conn [([1, 7], None)])))
     = (Ret (Some \<lparr>STcpConn =
                     \<lparr>Endpoint = ''10.0.0.2:2000'',
                      Conn = \<lparr>reads = [], writes = [], close_result = None,
                              nc_closed = False, sent = [[1, 5]]\<rparr>,
                      closed = False\<rparr>,
                   identity = ex_identity 7 []\<rparr>,
             None),
        (ex_net (ex_accepting_from 0 (ex_conn [([1, 7], None)])))
          \<lparr>dialled := 1, calls := [Dial ''10.0.0.2:2000'']\<rparr>)"
proof -
  let ?w = "ex_net (ex_accepting_from 0 (ex_conn [([1, 7], None)]))"
  let ?w' = "?w\<lparr>dialled := 1, calls := [Dial ''10.0.0.2:2000'']\<rparr>"
  let ?c = "\<lparr>Endpoint = ''10.0.0.2:2000'', Conn = ex_conn [([1, 7], None)], closed = False\<rparr>"
  let ?c1 = "\<lparr>Endpoint = ''10.0.0.2:2000'',
              Conn = \<lparr>reads = [([1, 7], None)], writes = [], close_result = None,
                      nc_closed = False, sent = [[1, 5]]\<rparr>,
              closed = False\<rparr>"
  let ?c2 = "\<lparr>Endpoint = ''10.0.0.2:2000'',
              Conn = \<lparr>reads = [], writes = [], close_result = None,
                      nc_closed = False, sent = [[1, 5]]\<rparr>,
              closed = False\<rparr>"
  let ?nm = "\<lparr>From = ''10.0.0.2:2000'', AmIdentity = zeroIdentity, MsgType = 1,
              Msg = IdentityMsg (ex_identity 7 [])\<rparr>"
  have h1: "Open_loop (Addresses (ex_identity 7 [''10.0.0.2:2000''])) ?w = (Some (Some ?c), ?w')"
    by (simp add: ex_identity_def openTcpConn_def openTcpConn_loop.simps maxRetry_def
          net_Dial_def ex_net_def ex_accepting_from_def)
  have h2: "Send ex_codec ?c (IdentityMsg (SIdentity ex_host)) = (None, ?c1)"
    by (simp add: Send_def ex_codec_def ex_identity_def ex_conn_def ex_host_def net_Write_def)
  have h3: "Receive ex_codec ?c1 = Ret ((?nm, None), ?c2)"
    by (simp add: Receive_def ex_codec_def net_Read_def bufferSize_def Remote_def)
  have h4: "MsgType ?nm = IdentityType ex_codec"
    by (simp add: ex_codec_def)
  have h5: "Msg ?nm = IdentityMsg (ex_identity 7 [])"
    by simp
  show ?thesis
    using Open_error_iff_identity_mismatch [OF h1 h2 h3 h4 h5] h1
    by (auto simp: ex_identity_def)
qed

subsection \<open>Counting the children\<close>

lemma int64_mod: "int64 (int64 x * 2) = int64 (x * 2)"
proof -
  have "(int64 x * 2 + 2 ^ 63) mod 2 ^ 64 = (x * 2 + 2 ^ 63) mod 2 ^ 64"
  proof -
    have "int64 x mod 2 ^ 64 = x mod 2 ^ 64"
      unfolding int64_def
      by (metis (no_types, lifting) add_diff_cancel_right' mod_diff_left_eq mod_add_self2 add.commute diff_add_cancel mod_mod_trivial)
    then have "(int64 x * 2) mod 2 ^ 64 = (x * 2) mod 2 ^ 64"
      by (metis mod_mult_left_eq)
    then show ?thesis
      by (metis mod_add_left_eq)
  qed
  then show ?thesis
    by (simp add: int64_def)
qed

lemma doubling_closed: "((\<lambda>x. int64 (x * 2)) ^^ k) 1000 = int64 (1000 * 2 ^ k)"
proof (induction k)
  case 0
  show ?case by (simp add: int64_def)
next
  case (Suc k)
  then show ?case
    by (simp add: int64_mod mult.assoc mult.commute[of "2::int"])
qed

lemma funpow_list_Suc:
  "map (\<lambda>k. (f ^^ k) t) [0..<Suc n] = t # map (\<lambda>k. (f ^^ k) (f t)) [0..<n]"
  by (simp add: map_upt_Suc funpow_swap1 del: upt_Suc)

lemma count_loop_mismatch:
  assumes "\<forall>c\<in>set cs. c \<noteq> sz"
  shows "count_loop sz t (map Inr cs) =
           (map (\<lambda>k. ((\<lambda>x. int64 (x * 2)) ^^ k) t) [0..<Suc (length cs)], Waits)"
  using assms
proof (induction cs arbitrary: t)
  case Nil
  show ?case by simp
next
  case (Cons c cs)
  let ?F = "\<lambda>x. int64 (x * 2)"
  have ne: "c \<noteq> sz" and rest: "\<forall>c\<in>set cs. c \<noteq> sz"
    using Cons.prems by auto
  have step: "count_loop sz t (map Inr (c # cs)) =
                (case count_loop sz (int64 (t * 2)) (map Inr cs) of (ts, e) \<Rightarrow> (t # ts, e))"
    using ne by simp
  have ih: "count_loop sz (int64 (t * 2)) (map Inr cs) =
              (map (\<lambda>k. (?F ^^ k) (int64 (t * 2))) [0..<Suc (length cs)], Waits)"
    using rest by (rule Cons.IH)
  have lst: "map (\<lambda>k. (?F ^^ k) t) [0..<Suc (length (c # cs))] =
               t # map (\<lambda>k. (?F ^^ k) (int64 (t * 2))) [0..<Suc (length cs)]"
    using funpow_list_Suc [of ?F t "length (c # cs)"] by simp
  show ?case
    unfolding step ih lst by simp
qed

lemma count_loop_match:
  assumes "\<forall>c\<in>set cs. c \<noteq> sz"
  shows "count_loop sz t (map Inr cs @ Inr sz # rest) =
           (map (\<lambda>k. ((\<lambda>x. int64 (x * 2)) ^^ k) t) [0..<Suc (length cs)], Proceeds)"
  using assms
proof (induction cs arbitrary: t)
  case Nil
  show ?case by simp
next
  case (Cons c cs)
  let ?F = "\<lambda>x. int64 (x * 2)"
  have ne: "c \<noteq> sz" and others: "\<forall>c\<in>set cs. c \<noteq> sz"
    using Cons.prems by auto
  have step: "count_loop sz t (map Inr (c # cs) @ Inr sz # rest) =
                (case count_loop sz (int64 (t * 2)) (map Inr cs @ Inr sz # rest) of
                   (ts, e) \<Rightarrow> (t # ts, e))"
    using ne by simp
  have ih: "count_loop sz (int64 (t * 2)) (map Inr cs @ Inr sz # rest) =
              (map (\<lambda>k. (?F ^^ k) (int64 (t * 2))) [0..<Suc (length cs)], Proceeds)"
    using others by (rule Cons.IH)
  have lst: "map (\<lambda>k. (?F ^^ k) t) [0..<Suc (length (c # cs))] =
               t # map (\<lambda>k. (?F ^^ k) (int64 (t * 2))) [0..<Suc (length cs)]"
    using funpow_list_Suc [of ?F t "length (c # cs)"] by simp
  show ?case
    unfolding step ih lst by simp
qed

lemma count_loop_proceeds:
  "snd (count_loop sz t rs) = Proceeds \<Longrightarrow>
     \<exists>cs rest. rs = map Inr cs @ Inr sz # rest \<and> (\<forall>c\<in>set cs. c \<noteq> sz)"
proof (induction sz t rs rule: count_loop.induct)
  case (1 sz timeout)
  then show ?case by simp
next
  case (2 sz timeout err rs)
  then show ?case by simp
next
  case (3 sz timeout count rs)
  show ?case
  proof (cases "count = sz")
    case True
    then have "Inr count # rs = map Inr [] @ Inr sz # rs \<and> (\<forall>c\<in>set []. c \<noteq> sz)"
      by simp
    then show ?thesis by blast
  next
    case False
    then have "snd (count_loop sz (int64 (timeout * 2)) rs) = Proceeds"
      using 3(2) by (simp split: prod.splits)
    then obtain cs rest where "rs = map Inr cs @ Inr sz # rest" "\<forall>c\<in>set cs. c \<noteq> sz"
      using 3(1)[OF False] by blast
    then have "Inr count # rs = map Inr (count # cs) @ Inr sz # rest \<and> (\<forall>c\<in>set (count # cs). c \<noteq> sz)"
      using False by simp
    then show ?thesis by blast
  qed
qed

lemma no_overflow: "k \<le> 53 \<Longrightarrow> int64 (1000 * 2 ^ k) = 1000 * 2 ^ k"
proof -
  assume "k \<le> 53"
  then have "(2::int) ^ k \<le> 2 ^ 53"
    by (intro power_increasing) auto
  then have "(1000::int) * 2 ^ k < 2 ^ 63"
    by simp
  moreover have "- (2 ^ 63) \<le> (1000::int) * 2 ^ k"
    by (smt (verit) zero_le_power mult_nonneg_nonneg)
  ultimately show ?thesis
    by (intro int64_id)
qed

lemma count_children_mismatch:
  assumes "\<forall>c\<in>set cs. c \<noteq> Size (Tree rootSC)"
  shows "count_children rootSC (map Inr cs)
           = (map (\<lambda>k. int64 (1000 * 2 ^ k)) [0..<Suc (length cs)], Waits)"
    and "count_children rootSC (map Inr cs @ Inr (Size (Tree rootSC)) # rest)
           = (map (\<lambda>k. int64 (1000 * 2 ^ k)) [0..<Suc (length cs)], Proceeds)"
  unfolding count_children_def count_loop_mismatch [OF assms] count_loop_match [OF assms]
    doubling_closed by (rule refl)+

text \<open>
  Claim C1, as stated, fails: with 54 rounds that return 2 for a tree of size 3, the
  54th round runs with 9007199254740992000 and the 55th round is started with
  -432345564227567616, which is not the double: \<open>timeout *= 2\<close> no longer fits the
  \<open>int\<close>.
\<close>

theorem Count_timeout_wraps_after_54_rounds:
  "2 \<noteq> Size (Tree ex_rootSC)
   \<and> snd (count_children ex_rootSC (map Inr (replicate 54 2))) = Waits
   \<and> length (fst (count_children ex_rootSC (map Inr (replicate 54 2)))) = 55
   \<and> fst (count_children ex_rootSC (map Inr (replicate 54 2))) ! 53 = 9007199254740992000
   \<and> fst (count_children ex_rootSC (map Inr (replicate 54 2))) ! 54 = - 432345564227567616"
proof -
  have sz: "Size (Tree ex_rootSC) = 3"
    by (simp add: ex_rootSC_def Size_def)
  have ne: "\<forall>c\<in>set (replicate 54 2). c \<noteq> Size (Tree ex_rootSC)"
    by (simp add: sz)
  have r: "count_children ex_rootSC (map Inr (replicate 54 2))
             = (map (\<lambda>k. int64 (1000 * 2 ^ k)) [0..<55], Waits)"
    using count_children_mismatch(1) [OF ne] by simp
  have a: "map (\<lambda>k. int64 (1000 * 2 ^ k)) [0..<55] ! 53 = int64 (1000 * 2 ^ 53)"
    by (subst nth_map_upt) simp_all
  have b: "map (\<lambda>k. int64 (1000 * 2 ^ k)) [0..<55] ! 54 = int64 (1000 * 2 ^ 54)"
    by (subst nth_map_upt) simp_all
  have a': "int64 (1000 * 2 ^ 53) = 9007199254740992000"
    by (simp add: int64_def)
  have b': "int64 (1000 * 2 ^ 54) = - 432345564227567616"
    by (simp add: int64_def)
  show ?thesis
    unfolding r by (simp only: fst_conv snd_conv a b a' b' length_map length_upt sz) simp
qed

text \<open>
  Claim C1, amended. After each round the root compares the count with the size of
  the tree. As long as the counts differ from the size, a further round is started,
  whatever the number of rounds so far: after \<open>n\<close> such rounds, \<open>n + 1\<close> rounds have
  been started and the root waits for the count of the last one. The loop is left
  for the next statement only when a round has returned a count equal to the size,
  all rounds before it having returned another count. The timeout is doubled from
  one round to the next as long as the doubled value fits Go's \<open>int\<close>: round \<open>k\<close>
  (from 0) runs with \<open>1000 * 2 ^ k\<close> for every \<open>k\<close> up to 53.
\<close>

theorem Count_retries_doubling_while_it_fits:
  "((\<forall>c\<in>set cs. c \<noteq> Size (Tree rootSC)) \<longrightarrow>
       snd (count_children rootSC (map Inr cs)) = Waits
     \<and> length (fst (count_children rootSC (map Inr cs))) = Suc (length cs)
     \<and> (\<forall>k\<le>length cs. k \<le> 53 \<longrightarrow>
           fst (count_children rootSC (map Inr cs)) ! k = 1000 * 2 ^ k)
     \<and> count_children rootSC (map Inr cs @ Inr (Size (Tree rootSC)) # rest)
         = (fst (count_children rootSC (map Inr cs)), Proceeds))
   \<and> (snd (count_children rootSC rs) = Proceeds \<longrightarrow>
        (\<exists>cs' rest'. rs = map Inr cs' @ Inr (Size (Tree rootSC)) # rest'
                    \<and> (\<forall>c\<in>set cs'. c \<noteq> Size (Tree rootSC))))"
proof (intro conjI impI allI)
  assume h: "\<forall>c\<in>set cs. c \<noteq> Size (Tree rootSC)"
  note r = count_children_mismatch [OF h]
  show "snd (count_children rootSC (map Inr cs)) = Waits"
    unfolding r(1) by simp
  show "length (fst (count_children rootSC (map Inr cs))) = Suc (length cs)"
    unfolding r(1) by simp
  show "count_children rootSC (map Inr cs @ Inr (Size (Tree rootSC)) # rest)
         = (fst (count_children rootSC (map Inr cs)), Proceeds)"
    unfolding r by simp
  fix k :: nat assume k: "k \<le> length cs" "k \<le> 53"
  have "map (\<lambda>k. int64 (1000 * 2 ^ k)) [0..<Suc (length cs)] ! k = int64 (1000 * 2 ^ k)"
    using k(1) by (subst nth_map_upt) simp_all
  then show "fst (count_children rootSC (map Inr cs)) ! k = 1000 * 2 ^ k"
    unfolding r(1) using no_overflow [OF k(2)] by simp
next
  assume "snd (count_children rootSC rs) = Proceeds"
  then show "\<exists>cs' rest'. rs = map Inr cs' @ Inr (Size (Tree rootSC)) # rest'
                    \<and> (\<forall>c\<in>set cs'. c \<noteq> Size (Tree rootSC))"
    unfolding count_children_def by (rule count_loop_proceeds)
qed

theorem Count_retries_doubling_while_it_fits_witness:
  "2 \<noteq> Size (Tree ex_rootSC)
   \<and> 1 \<noteq> Size (Tree ex_rootSC)
   \<and> snd (count_children ex_rootSC [Inr 2, Inr 1]) = Waits
   \<and> length (fst (count_children ex_rootSC [Inr 2, Inr 1])) = 3
   \<and> fst (count_children ex_rootSC [Inr 2, Inr 1]) ! 0 = 1000
   \<and> fst (count_children ex_rootSC [Inr 2, Inr 1]) ! 1 = 2000
   \<and> fst (count_children ex_rootSC [Inr 2, Inr 1]) ! 2 = 4000
   \<and> snd (count_children ex_rootSC [Inr 2, Inr 1, Inr 3, Inr 3]) = Proceeds
   \<and> fst (count_children ex_rootSC [Inr 2, Inr 1, Inr 3, Inr 3])
       = fst (count_children ex_rootSC [Inr 2, Inr 1])
   \<and> snd (count_children ex_rootSC [Inr 3]) = Proceeds
   \<and> (\<exists>cs' rest'. [Inr 3 :: error + int] = map Inr cs' @ Inr (Size (Tree ex_rootSC)) # rest'
                    \<and> (\<forall>c\<in>set cs'. c \<noteq> Size (Tree ex_rootSC)))"
proof -
  have sz: "Size (Tree ex_rootSC) = 3"
    by (simp add: ex_rootSC_def Size_def)
  have a: "\<forall>c\<in>set [2, 1]. c \<noteq> Size (Tree ex_rootSC)"
    by (simp add: sz)
  have p: "snd (count_children ex_rootSC [Inr 3]) = Proceeds"
    by (simp add: count_children_def sz)
  note T = Count_retries_doubling_while_it_fits [of "[2, 1]" ex_rootSC "[Inr 3]" "[Inr 3]"]
  note T1 = T [THEN conjunct1, THEN mp, OF a]
  have w: "snd (count_children ex_rootSC (map Inr [2, 1])) = Waits"
    by (rule T1 [THEN conjunct1])
  have l: "length (fst (count_children ex_rootSC (map Inr [2, 1]))) = Suc (length [2, 1 :: int])"
    by (rule T1 [THEN conjunct2, THEN conjunct1])
  note nth = T1 [THEN conjunct2, THEN conjunct2, THEN conjunct1, rule_format]
  have n0: "fst (count_children ex_rootSC (map Inr [2, 1])) ! 0 = 1000 * 2 ^ 0"
    by (rule nth) simp_all
  have n1: "fst (count_children ex_rootSC (map Inr [2, 1])) ! 1 = 1000 * 2 ^ 1"
    by (rule nth) simp_all
  have n2: "fst (count_children ex_rootSC (map Inr [2, 1])) ! 2 = 1000 * 2 ^ 2"
    by (rule nth) simp_all
  have m: "count_children ex_rootSC (map Inr [2, 1] @ Inr (Size (Tree ex_rootSC)) # [Inr 3])
             = (fst (count_children ex_rootSC (map Inr [2, 1])), Proceeds)"
    by (rule T1 [THEN conjunct2, THEN conjunct2, THEN conjunct2])
  have T2: "\<exists>cs' rest'. [Inr 3 :: error + int] = map Inr cs' @ Inr (Size (Tree ex_rootSC)) # rest'
                    \<and> (\<forall>c\<in>set cs'. c \<noteq> Size (Tree ex_rootSC))"
    by (rule T [THEN conjunct2, THEN mp, OF p])
  show ?thesis
    using a w l n0 n1 n2 m p T2 by (simp add: sz)
qed

subsection \<open>The tree of CloseAll\<close>

lemma nodes_binary_tree:
  "set (nodes (binary_tree x xs)) = set (x # xs)
   \<and> length (nodes (binary_tree x xs)) = Suc (length xs)"
proof (induction x xs rule: binary_tree.induct)
  case (1 x xs)
  let ?h = "(length xs + 1) div 2"
  let ?L = "concat (map nodes (case take ?h xs of [] \<Rightarrow> [] | y # ys \<Rightarrow> [binary_tree y ys]))"
  let ?R = "concat (map nodes (case drop ?h xs of [] \<Rightarrow> [] | z # zs \<Rightarrow> [binary_tree z zs]))"
  have L: "set ?L = set (take ?h xs) \<and> length ?L = length (take ?h xs)"
  proof (cases "take ?h xs")
    case Nil
    show ?thesis unfolding Nil by simp
  next
    case (Cons y ys)
    show ?thesis unfolding Cons using "1.IH"(1) [OF Cons] by simp
  qed
  have R: "set ?R = set (drop ?h xs) \<and> length ?R = length (drop ?h xs)"
  proof (cases "drop ?h xs")
    case Nil
    show ?thesis unfolding Nil by simp
  next
    case (Cons z zs)
    show ?thesis unfolding Cons using "1.IH"(2) [OF Cons] by simp
  qed
  have n: "nodes (binary_tree x xs) = x # ?L @ ?R"
    by (subst binary_tree.simps) simp
  have s: "set (take ?h xs) \<union> set (drop ?h xs) = set xs"
    by (metis append_take_drop_id set_append)
  have l: "length (take ?h xs) + length (drop ?h xs) = length xs"
    by (metis append_take_drop_id length_append)
  show ?case
    unfolding n using L R s l by simp
qed

lemma nodes_GenerateBinaryTree:
  assumes "roster \<noteq> []"
  shows "set (nodes (GenerateBinaryTree roster)) = set roster"
    and "length (nodes (GenerateBinaryTree roster)) = length roster"
  using assms by (cases roster; simp add: GenerateBinaryTree_def nodes_binary_tree)+

lemma distinct_nodes_GenerateBinaryTree:
  assumes "roster \<noteq> []" and "distinct roster"
  shows "distinct (nodes (GenerateBinaryTree roster))"
proof -
  have "card (set (nodes (GenerateBinaryTree roster))) = card (set roster)"
    using nodes_GenerateBinaryTree(1) [OF assms(1)] by simp
  also have "\<dots> = length roster"
    using assms(2) by (rule distinct_card)
  also have "\<dots> = length (nodes (GenerateBinaryTree roster))"
    using nodes_GenerateBinaryTree(2) [OF assms(1)] by simp
  finally show ?thesis
    by (rule card_distinct)
qed

lemma count_list_distinct: "distinct xs \<Longrightarrow> x \<in> set xs \<Longrightarrow> count_list xs x = 1"
  by (induction xs) auto

lemma UsesList_of_distinct:
  assumes "distinct (nodes t)" and "set (nodes t) = set roster"
  shows "UsesList t roster"
  using assms by (simp add: UsesList_def list_all_iff count_list_distinct)

text \<open>
  Claim C9, as stated, fails: for a tree with two nodes for one identity and a
  configuration that is not single-host, the driver logs an error, creates CloseAll
  over the working tree itself and goes on.
\<close>

theorem CloseAll_runs_over_aliased_tree:
  "\<not> distinct (nodes (Tree ex_rootSC))
   \<and> \<not> UsesList (Tree ex_rootSC) (Roster ex_rootSC)
   \<and> close_all ex_create ex_rootSC
       = ([LogError, CreateProtocolSDA ''CloseAll'' (TreeNode 1 [TreeNode 2 [], TreeNode 1 []]),
           Start],
          Proceeds)"
  by (simp add: ex_rootSC_def UsesList_def close_all_def ex_create_def)

text \<open>
  Claim C9, amended. Whenever the configuration is single-host, whether or not the
  working tree maps several nodes to one identity, CloseAll is created over a
  deduplicated tree rebuilt from the roster, with exactly one node for each
  identity of the roster, after that tree has been registered; otherwise CloseAll
  is created over the working tree. When the working tree does not use the list,
  this is not swallowed silently: the driver logs an error before that, but it
  continues and does not abort the run. When the creation succeeds, the instance
  is started.
\<close>

theorem CloseAll_tree_follows_SingleHost:
  assumes "create ''CloseAll''
             (if GetSingleHost rootSC then GenerateBinaryTree (Roster rootSC)
              else Tree rootSC) = (True, None)"
    and "Roster rootSC \<noteq> []" and "distinct (Roster rootSC)"
  shows "close_all create rootSC =
           ((if UsesList (Tree rootSC) (Roster rootSC) then [] else [LogError])
            @ (if GetSingleHost rootSC
               then [RegisterTree (GenerateBinaryTree (Roster rootSC)),
                     CreateProtocolSDA ''CloseAll'' (GenerateBinaryTree (Roster rootSC))]
               else [CreateProtocolSDA ''CloseAll'' (Tree rootSC)])
            @ [Start],
            Proceeds)
       \<and> distinct (nodes (GenerateBinaryTree (Roster rootSC)))
       \<and> set (nodes (GenerateBinaryTree (Roster rootSC))) = set (Roster rootSC)
       \<and> UsesList (GenerateBinaryTree (Roster rootSC)) (Roster rootSC)"
proof -
  have d: "distinct (nodes (GenerateBinaryTree (Roster rootSC)))"
    using assms(2,3) by (rule distinct_nodes_GenerateBinaryTree)
  have s: "set (nodes (GenerateBinaryTree (Roster rootSC))) = set (Roster rootSC)"
    using assms(2) by (rule nodes_GenerateBinaryTree(1))
  have u: "UsesList (GenerateBinaryTree (Roster rootSC)) (Roster rootSC)"
    using d s by (rule UsesList_of_distinct)
  have c: "close_all create rootSC =
           ((if UsesList (Tree rootSC) (Roster rootSC) then [] else [LogError])
            @ (if GetSingleHost rootSC
               then [RegisterTree (GenerateBinaryTree (Roster rootSC)),
                     CreateProtocolSDA ''CloseAll'' (GenerateBinaryTree (Roster rootSC))]
               else [CreateProtocolSDA ''CloseAll'' (Tree rootSC)])
            @ [Start],
            Proceeds)"
    using assms(1) by (simp add: close_all_def Let_def)
  show ?thesis
    by (intro conjI c d s u)
qed

theorem CloseAll_tree_follows_SingleHost_witness:
  "\<not> distinct (nodes (Tree (ex_rootSC\<lparr>GetSingleHost := True\<rparr>)))
   \<and> ex_create ''CloseAll''
       (if GetSingleHost (ex_rootSC\<lparr>GetSingleHost := True\<rparr>)
        then GenerateBinaryTree (Roster (ex_rootSC\<lparr>GetSingleHost := True\<rparr>))
        else Tree (ex_rootSC\<lparr>GetSingleHost := True\<rparr>)) = (True, None)
   \<and> Roster (ex_rootSC\<lparr>GetSingleHost := True\<rparr>) \<noteq> []
   \<and> distinct (Roster (ex_rootSC\<lparr>GetSingleHost := True\<rparr>))
   \<and> GenerateBinaryTree (Roster (ex_rootSC\<lparr>GetSingleHost := True\<rparr>))
       = TreeNode 1 [TreeNode 2 []]
   \<and> close_all ex_create (ex_rootSC\<lparr>GetSingleHost := True\<rparr>)
       = ([LogError, RegisterTree (TreeNode 1 [TreeNode 2 []]),
           CreateProtocolSDA ''CloseAll'' (TreeNode 1 [TreeNode 2 []]), Start],
          Proceeds)
   \<and> distinct (nodes (TreeNode 1 [TreeNode 2 []]))
   \<and> set (nodes (TreeNode 1 [TreeNode 2 []])) = set (Roster (ex_rootSC\<lparr>GetSingleHost := True\<rparr>))
   \<and> UsesList (TreeNode 1 [TreeNode 2 []]) (Roster (ex_rootSC\<lparr>GetSingleHost := True\<rparr>))"
proof -
  let ?sc = "ex_rootSC\<lparr>GetSingleHost := True\<rparr>"
  have g: "GenerateBinaryTree (Roster ?sc) = TreeNode 1 [TreeNode 2 []]"
    by (simp add: ex_rootSC_def GenerateBinaryTree_def binary_tree.simps)
  have a: "\<not> distinct (nodes (Tree ?sc))"
    by (simp add: ex_rootSC_def)
  have h1: "ex_create ''CloseAll''
       (if GetSingleHost ?sc then GenerateBinaryTree (Roster ?sc) else Tree ?sc) = (True, None)"
    by (simp add: ex_create_def)
  have h2: "Roster ?sc \<noteq> []"
    by (simp add: ex_rootSC_def)
  have h3: "distinct (Roster ?sc)"
    by (simp add: ex_rootSC_def)
  have u: "\<not> UsesList (Tree ?sc) (Roster ?sc)"
    by (simp add: ex_rootSC_def UsesList_def)
  note T = CloseAll_tree_follows_SingleHost [of ex_create ?sc, OF h1 h2 h3]
  have c: "close_all ex_create ?sc
       = ([LogError, RegisterTree (TreeNode 1 [TreeNode 2 []]),
           CreateProtocolSDA ''CloseAll'' (TreeNode 1 [TreeNode 2 []]), Start],
          Proceeds)"
    using T [THEN conjunct1] u unfolding g by simp
  have d: "distinct (nodes (TreeNode 1 [TreeNode 2 []]))"
    using T [THEN conjunct2, THEN conjunct1] unfolding g .
  have s: "set (nodes (TreeNode 1 [TreeNode 2 []])) = set (Roster ?sc)"
    using T [THEN conjunct2, THEN conjunct2, THEN conjunct1] unfolding g .
  have v: "UsesList (TreeNode 1 [TreeNode 2 []]) (Roster ?sc)"
    using T [THEN conjunct2, THEN conjunct2, THEN conjunct2] unfolding g .
  show ?thesis
    by (intro conjI a h1 h2 h3 g c d s v)
qed

subsection \<open>Address failover\<close>




end
